theory Spec2Isabelle
  imports Complex_Main
begin

section \<open>Data model\<close>

text \<open>
  The verifier \<^verbatim>\<open>basis_of\<close> of \<^verbatim>\<open>src/self_function.py\<close> receives dynamically
  typed Python values and delegates every numeric step to the class \<^verbatim>\<open>Matrix\<close> of the
  external package \<^verbatim>\<open>ma1522\<close>. A matrix is a record of its two dimensions and its
  entries, row by row; the entries are exact rationals. Floating-point entries, on which
  the provider's arithmetic rounds, are not modelled.
\<close>

record matrix =
  rows :: nat
  cols :: nat
  entries :: "rat list list"

text \<open>What a caller can pass for \<^verbatim>\<open>T\<close> or \<^verbatim>\<open>V\<close>: a \<^verbatim>\<open>Matrix\<close> instance,
  \<^verbatim>\<open>None\<close>, or any other object.\<close>

datatype pyobj = Matrix matrix | NoneVal | OtherObject

datatype error = TypeError string | ValueError string

text \<open>The class invariant of a \<^verbatim>\<open>Matrix\<close>: \<^verbatim>\<open>rows\<close> rows of \<^verbatim>\<open>cols\<close> entries each.\<close>

definition wf_matrix :: "matrix \<Rightarrow> bool" where
  "wf_matrix m \<longleftrightarrow>
     length (entries m) = rows m \<and> list_all (\<lambda>r. length r = cols m) (entries m)"

text \<open>
  What a call leaves behind, in order: the lines it prints and the calls it makes to the
  matrix provider. A printed line is kept as the pieces of its f-string, so that no
  number or matrix formatting is fixed here.
\<close>

datatype piece = Str string | Num nat | Mat matrix

datatype event =
    Print "piece list"
  | Call_eye nat
  | Call_rank matrix
  | Call_is_linearly_independent matrix
  | Call_rref matrix
  | Call_row_join matrix matrix

section \<open>The matrix provider\<close>

text \<open>
  The package \<^verbatim>\<open>ma1522\<close> is not part of the repository. Its operations are modelled
  from the specification (sections 3 and 4.1 and the glossary): an identity constructor,
  horizontal concatenation, rank by row reduction, the reduced row-echelon form with its
  pivot columns, and the independence test read off the pivots.
\<close>

definition eye :: "nat \<Rightarrow> matrix" where
  \<comment> \<open>Modelled from the spec: \<^verbatim>\<open>Matrix.eye\<close>, the static identity-matrix constructor.\<close>
  "eye n = \<lparr>rows = n, cols = n,
             entries = map (\<lambda>i. map (\<lambda>j. if i = j then 1 else 0) [0..<n]) [0..<n]\<rparr>"

definition row_join :: "matrix \<Rightarrow> matrix \<Rightarrow> matrix" where
  \<comment> \<open>Modelled from the spec: \<^verbatim>\<open>row_join\<close>, the horizontal concatenation \<open>[A | B]\<close>
      of two matrices with the same number of rows.\<close>
  "row_join a b = \<lparr>rows = rows a, cols = cols a + cols b,
                    entries = map2 (@) (entries a) (entries b)\<rparr>"

definition transpose_matrix :: "matrix \<Rightarrow> matrix" where
  \<comment> \<open>Modelled from the spec: the transpose, used by the row-space variant of the
      independence test.\<close>
  "transpose_matrix m = \<lparr>rows = cols m, cols = rows m,
     entries = map (\<lambda>j. map (\<lambda>r. r ! j) (entries m)) [0..<cols m]\<rparr>"

definition head :: "rat list \<Rightarrow> rat" where
  \<comment> \<open>Modelled from the spec: the leading entry of a row, part of the row reduction.\<close>
  "head r = (case r of [] \<Rightarrow> 0 | x # _ \<Rightarrow> x)"

definition find_pivot :: "rat list list \<Rightarrow> rat list option" where
  \<comment> \<open>Modelled from the spec: the pivot search of the row reduction, the first row
      whose leading entry is not zero.\<close>
  "find_pivot rs = List.find (\<lambda>r. head r \<noteq> 0) rs"

definition eliminate :: "rat list \<Rightarrow> rat list \<Rightarrow> rat list" where
  \<comment> \<open>Modelled from the spec: the elimination step of the row reduction, row \<open>r\<close>
      minus the multiple of the pivot row \<open>p\<close> that clears its leading entry, without
      that leading entry.\<close>
  "eliminate p r = map2 (\<lambda>x y. y - (head r / head p) * x) (tl p) (tl r)"

fun rank_rows :: "nat \<Rightarrow> rat list list \<Rightarrow> nat" where
  \<comment> \<open>Modelled from the spec: forward elimination on rows of \<open>n\<close> entries, one
      column at a time, counting the pivots.\<close>
  "rank_rows 0 rs = 0"
| "rank_rows (Suc n) rs =
     (case find_pivot rs of
        None \<Rightarrow> rank_rows n (map tl rs)
      | Some p \<Rightarrow> Suc (rank_rows n (map (eliminate p) (remove1 p rs))))"

definition rank :: "matrix \<Rightarrow> nat" where
  \<comment> \<open>Modelled from the spec: \<^verbatim>\<open>rank()\<close>, the number of pivots that forward
      elimination finds, column by column.\<close>
  "rank m = rank_rows (cols m) (entries m)"

definition entry :: "rat list \<Rightarrow> nat \<Rightarrow> rat" where
  \<comment> \<open>Modelled from the spec: the entry of a row at a column, zero beyond the row.\<close>
  "entry r i = (if i < length r then r ! i else 0)"

definition clear_above :: "rat list \<Rightarrow> (nat \<times> rat list) list \<Rightarrow> rat list" where
  \<comment> \<open>Modelled from the spec: the back substitution of the reduced row-echelon form,
      clearing the entries of a row at the pivot columns of the rows below it.\<close>
  "clear_above v prs = fold (\<lambda>(c, row) w. map2 (\<lambda>x y. x - entry w c * y) w row) prs v"

fun rref_rows :: "nat \<Rightarrow> rat list list \<Rightarrow> rat list list \<times> nat list" where
  \<comment> \<open>Modelled from the spec: Gauss-Jordan elimination on rows of \<open>n\<close> entries; the
      reduced rows, pivot rows first, and the pivot columns.\<close>
  "rref_rows 0 rs = (rs, [])"
| "rref_rows (Suc n) rs =
     (case find_pivot rs of
        None \<Rightarrow>
          (let (rs', pv) = rref_rows n (map tl rs)
           in (map ((#) 0) rs', map Suc pv))
      | Some p \<Rightarrow>
          (let (rs', pv) = rref_rows n (map (eliminate p) (remove1 p rs));
               top = clear_above (map (\<lambda>x. x / head p) (tl p)) (zip pv rs')
           in ((1 # top) # map ((#) 0) rs', 0 # map Suc pv)))"

definition rref :: "matrix \<Rightarrow> matrix \<times> nat list" where
  \<comment> \<open>Modelled from the spec: \<^verbatim>\<open>rref()\<close>, the reduced row-echelon form together with
      the list of its pivot columns.\<close>
  "rref m = (let (rs, pv) = rref_rows (cols m) (entries m) in (m\<lparr>entries := rs\<rparr>, pv))"

definition is_linearly_independent :: "matrix \<Rightarrow> bool \<Rightarrow> bool" where
  \<comment> \<open>Modelled from the spec: \<^verbatim>\<open>is_linearly_independent(colspace, verbosity=0)\<close>; the
      columns (or, without the column-space flag, the rows) are independent when the
      reduced row-echelon form has a pivot for each of them.\<close>
  "is_linearly_independent m colspace =
     (if colspace then length (snd (rref m)) = cols m
      else length (snd (rref (transpose_matrix m))) = rows m)"

section \<open>The verifier\<close>

definition check_mark :: string where
  "check_mark = [CHR 0xE2, CHR 0x9C, CHR 0x93]"

definition cross_mark :: string where
  "cross_mark = [CHR 0xE2, CHR 0x9C, CHR 0x97]"

definition not_equal_sign :: string where
  "not_equal_sign = [CHR 0xE2, CHR 0x89, CHR 0xA0]"

definition qed_mark :: string where
  "qed_mark = [CHR 0xE2, CHR 0x88, CHR 0x8E]"

definition newline :: string where
  "newline = [CHR 0x0A]"

definition banner :: string where
  "banner = replicate 60 (CHR ''='')"

definition verbose :: "int \<Rightarrow> int \<Rightarrow> event list \<Rightarrow> event list" where
  \<comment> \<open>\<^verbatim>\<open>if verbosity >= level: ...\<close>\<close>
  "verbose verbosity level evs = (if verbosity \<ge> level then evs else [])"

text \<open>
  \<^verbatim>\<open>basis_of(T, V=None, verbosity=0)\<close>, lines 3 to 124. The result pairs the events of
  the call with either the exception raised or the boolean returned. The independence test
  of line 65 is the argument \<open>indep\<close>, so that the verifier of the source and the variant
  of the specification's step 3 share one body.
\<close>

definition basis_of_with ::
  "(matrix \<Rightarrow> bool) \<Rightarrow> pyobj \<Rightarrow> pyobj \<Rightarrow> int \<Rightarrow> event list \<times> (error + bool)" where
  "basis_of_with indep T V verbosity =
    (case T of
       Matrix t \<Rightarrow>
         (let (out0, V') =
                (case V of
                   NoneVal \<Rightarrow>
                     ([Call_eye (rows t)] @
                      verbose verbosity 1
                        [Print [Str (check_mark @
                           '' Vector space V not provided, defaulting to R^''), Num (rows t)]],
                      Matrix (eye (rows t)))
                 | _ \<Rightarrow> ([], V))
          in
          (case V' of
             Matrix v \<Rightarrow>
               (if rows t \<noteq> rows v
               then (out0, Inl (ValueError ''T and V must have the same number of rows''))
               else
                 (let out1 = out0 @ verbose verbosity 1
                        [Print [Str banner],
                         Print [Str ''Checking if T is a basis for V''],
                         Print [Str banner]];
                      dim_V = rank v;
                      num_vectors_T = cols t;
                      out2 = out1 @ [Call_rank v] @ verbose verbosity 1
                        [Print [Str (newline @ ''1. Dimension Check:'')],
                         Print [Str ''   - dim(V) = rank(V) = '', Num dim_V],
                         Print [Str ''   - Number of vectors in T = '', Num num_vectors_T]]
                  in
                  if num_vectors_T \<noteq> dim_V
                  then
                    (out2 @ verbose verbosity 1
                       [Print [Str (''   '' @ cross_mark @ '' FAIL: T has ''), Num num_vectors_T,
                               Str '' vectors but needs exactly '', Num dim_V, Str '' vectors''],
                        Print [Str (newline @ banner)],
                        Print [Str ''Result: T is NOT a basis for V''],
                        Print [Str ''Reason: Wrong number of vectors (need '', Num dim_V,
                               Str '', have '', Num num_vectors_T, Str '')''],
                        Print [Str banner]],
                     Inr False)
                  else
                    (let out3 = out2 @ verbose verbosity 1
                           [Print [Str (''   '' @ check_mark @
                              '' PASS: T has the correct number of vectors (''), Num dim_V,
                              Str '')'']]
                           @ verbose verbosity 1
                           [Print [Str (newline @ ''2. Linear Independence Check:'')]];
                         is_independent = indep t;
                         out4 = out3 @ [Call_is_linearly_independent t]
                     in
                     if \<not> is_independent
                     then
                       (out4 @ verbose verbosity 1
                          ([Print [Str (''   '' @ cross_mark @
                              '' FAIL: Vectors in T are linearly dependent'')]]
                           @ verbose verbosity 2
                              [Print [Str (newline @ ''   Computing RREF to show dependence:'')],
                               Call_rref t,
                               Print [Str ''   RREF(T) =''],
                               Print [Str ''   '', Mat (fst (rref t))]]
                           @ [Print [Str (newline @ banner)],
                              Print [Str ''Result: T is NOT a basis for V''],
                              Print [Str ''Reason: Vectors are linearly dependent''],
                              Print [Str banner]]),
                        Inr False)
                     else
                       (let out5 = out4 @ verbose verbosity 1
                              ([Print [Str (''   '' @ check_mark @
                                  '' PASS: Vectors in T are linearly independent'')]]
                               @ verbose verbosity 2
                                  [Call_rref t,
                                   Print [Str (newline @
                                     ''   RREF(T) shows pivot in each column:'')],
                                   Print [Str ''   '', Mat (fst (rref t))]]);
                            out6 = out5 @ verbose verbosity 1
                              [Print [Str (newline @ ''3. Spanning Check:'')],
                               Print [Str ''   - Checking if T spans V'']];
                            combined = row_join t v;
                            rank_combined = rank combined;
                            out7 = out6 @ [Call_row_join t v, Call_rank combined]
                              @ verbose verbosity 2
                              [Call_rank t,
                               Print [Str ''   - rank(T) = '', Num (rank t)],
                               Print [Str ''   - rank([T | V]) = '', Num rank_combined],
                               Print [Str
                                 ''   - If rank([T | V]) = rank(T), then T spans V'']]
                        in
                        if rank_combined \<noteq> dim_V
                        then
                          (out7 @ verbose verbosity 1
                             [Print [Str (''   '' @ cross_mark @ '' FAIL: T does not span V'')],
                              Print [Str ''   rank([T | V]) = '', Num rank_combined,
                                     Str ('' '' @ not_equal_sign @ '' ''), Num dim_V,
                                     Str '' = dim(V)''],
                              Print [Str (newline @ banner)],
                              Print [Str ''Result: T is NOT a basis for V''],
                              Print [Str ''Reason: T does not span V''],
                              Print [Str banner]],
                           Inr False)
                        else
                          (out7 @ verbose verbosity 1
                             [Print [Str (''   '' @ check_mark @
                                 '' PASS: T spans V (rank([T | V]) = rank(T) = ''),
                                 Num dim_V, Str '')''],
                              Print [Str (newline @ banner)],
                              Print [Str (check_mark @ '' Result: T IS a basis for V'')],
                              Print [Str banner],
                              Print [Str (newline @ ''Proof Summary:'')],
                              Print [Str ''  1. T has exactly '', Num dim_V,
                                     Str '' vectors (dimension of V)''],
                              Print [Str ''  2. The vectors in T are linearly independent''],
                              Print [Str ''  3. T spans V''],
                              Print [Str (''Therefore, T forms a basis for V. '' @ qed_mark)],
                              Print [Str banner]],
                           Inr True)))))
           | _ \<Rightarrow> (out0, Inl (TypeError ''V must be a Matrix object''))))
     | _ \<Rightarrow> ([], Inl (TypeError ''T must be a Matrix object'')))"

definition basis_of :: "pyobj \<Rightarrow> pyobj \<Rightarrow> int \<Rightarrow> event list \<times> (error + bool)" where
  "basis_of T V verbosity = basis_of_with (\<lambda>t. is_linearly_independent t True) T V verbosity"

definition basis_of_direct :: "pyobj \<Rightarrow> pyobj \<Rightarrow> int \<Rightarrow> event list \<times> (error + bool)" where
  \<comment> \<open>The variant of the specification's step 3: independence decided by comparing
      \<open>rank(T)\<close> with \<open>cols(T)\<close>.\<close>
  "basis_of_direct T V verbosity = basis_of_with (\<lambda>t. rank t = cols t) T V verbosity"

section \<open>Operations of the specification\<close>

fun is_Matrix :: "pyobj \<Rightarrow> bool" where
  \<comment> \<open>\<^verbatim>\<open>isinstance(x, Matrix)\<close>\<close>
  "is_Matrix (Matrix m) = True"
| "is_Matrix _ = False"

fun is_call :: "event \<Rightarrow> bool" where
  \<comment> \<open>An event that is a call to the matrix provider, not a printed line.\<close>
  "is_call (Print ps) = False"
| "is_call _ = True"

definition swap_columns :: "nat \<Rightarrow> nat \<Rightarrow> matrix \<Rightarrow> matrix" where
  \<comment> \<open>The matrix with columns \<open>i\<close> and \<open>j\<close> exchanged (section 8 of the
      specification), for column indices \<open>i, j < cols m\<close>.\<close>
  "swap_columns i j m = m\<lparr>entries := map (\<lambda>r. r[i := r ! j, j := r ! i]) (entries m)\<rparr>"

section \<open>Rows as vectors over the rationals\<close>

text \<open>
  A row is read as the vector of its entries, zero beyond its length. The vectors form a
  vector space over the rationals, in which the dimension of the span of a matrix's rows
  is what \<open>rank\<close> computes.
\<close>

datatype vec = Vec (coord: "nat \<Rightarrow> rat")

instantiation vec :: ab_group_add
begin

definition zero_vec :: vec where
  "zero_vec = Vec (\<lambda>i. 0)"

definition plus_vec :: "vec \<Rightarrow> vec \<Rightarrow> vec" where
  "plus_vec u v = Vec (\<lambda>i. coord u i + coord v i)"

definition uminus_vec :: "vec \<Rightarrow> vec" where
  "uminus_vec u = Vec (\<lambda>i. - coord u i)"

definition minus_vec :: "vec \<Rightarrow> vec \<Rightarrow> vec" where
  "minus_vec u v = Vec (\<lambda>i. coord u i - coord v i)"

instance
  by standard (simp_all add: zero_vec_def plus_vec_def uminus_vec_def minus_vec_def ac_simps)

end

definition smult :: "rat \<Rightarrow> vec \<Rightarrow> vec" where
  "smult c u = Vec (\<lambda>i. c * coord u i)"

definition row_vec :: "rat list \<Rightarrow> vec" where
  "row_vec r = Vec (entry r)"

definition shift :: "vec \<Rightarrow> vec" where
  \<comment> \<open>Dropping the first coordinate.\<close>
  "shift u = Vec (\<lambda>i. coord u (Suc i))"

definition zero_head :: "vec set" where
  "zero_head = {u. coord u 0 = 0}"

definition reduce_row :: "rat list \<Rightarrow> rat list \<Rightarrow> vec" where
  \<comment> \<open>The row that \<open>eliminate\<close> computes, before its leading entry is dropped.\<close>
  "reduce_row p r = row_vec r - smult (head r / head p) (row_vec p)"

definition swap_coords :: "nat \<Rightarrow> nat \<Rightarrow> vec \<Rightarrow> vec" where
  "swap_coords i j u = Vec (\<lambda>k. coord u (if k = i then j else if k = j then i else k))"

abbreviation span_rat :: "vec set \<Rightarrow> vec set" where
  "span_rat \<equiv> module.span smult"

abbreviation independent_rat :: "vec set \<Rightarrow> bool" where
  "independent_rat S \<equiv> \<not> module.dependent smult S"

abbreviation dim_rat :: "vec set \<Rightarrow> nat" where
  "dim_rat \<equiv> vector_space.dim smult"

abbreviation subspace_rat :: "vec set \<Rightarrow> bool" where
  "subspace_rat \<equiv> module.subspace smult"

abbreviation linear_rat :: "(vec \<Rightarrow> vec) \<Rightarrow> bool" where
  "linear_rat \<equiv> Vector_Spaces.linear smult smult"

section \<open>Lemmas about the verifier\<close>

lemma rows_eye: "rows (eye n) = n"
  by (simp add: eye_def)

lemma snd_basis_of_with_Matrix:
  "snd (basis_of_with indep (Matrix t) (Matrix v) verbosity) =
     (if rows t \<noteq> rows v
      then Inl (ValueError ''T and V must have the same number of rows'')
      else Inr (cols t = rank v \<and> indep t \<and> rank (row_join t v) = rank v))"
  by (simp add: basis_of_with_def Let_def)

lemma snd_basis_of_with_NoneVal:
  "snd (basis_of_with indep (Matrix t) NoneVal verbosity) =
     snd (basis_of_with indep (Matrix t) (Matrix (eye (rows t))) verbosity)"
  by (simp add: basis_of_with_def Let_def rows_eye)

lemma basis_of_with_mismatch:
  "rows t \<noteq> rows v \<Longrightarrow>
   basis_of_with indep (Matrix t) (Matrix v) verbosity =
     ([], Inl (ValueError ''T and V must have the same number of rows''))"
  by (simp add: basis_of_with_def)

lemma basis_of_with_OtherObject:
  "basis_of_with indep (Matrix t) OtherObject verbosity =
     ([], Inl (TypeError ''V must be a Matrix object''))"
  by (simp add: basis_of_with_def)

lemma basis_of_with_not_Matrix:
  "\<not> is_Matrix T \<Longrightarrow>
   basis_of_with indep T V verbosity = ([], Inl (TypeError ''T must be a Matrix object''))"
  by (cases T) (simp_all add: basis_of_with_def)

lemma filter_is_call_verbose:
  "list_all (\<lambda>e. \<not> is_call e) evs \<Longrightarrow> filter is_call (verbose verbosity level evs) = []"
  by (auto simp: verbose_def list_all_iff)

lemma calls_basis_of_with_wrong_count:
  "rows t = rows v \<Longrightarrow> cols t \<noteq> rank v \<Longrightarrow>
   filter is_call (fst (basis_of_with indep (Matrix t) (Matrix v) verbosity)) = [Call_rank v]"
  by (simp add: basis_of_with_def Let_def filter_is_call_verbose)

section \<open>Lemmas about the matrix provider\<close>

lemma length_pivots_rref_rows: "length (snd (rref_rows n rs)) = rank_rows n rs"
  by (induction n rs rule: rank_rows.induct) (auto split: option.splits prod.splits)

lemma is_linearly_independent_iff_rank:
  "is_linearly_independent t True \<longleftrightarrow> rank t = cols t"
proof -
  have "length (snd (rref t)) = rank t"
    using length_pivots_rref_rows[of "cols t" "entries t"]
    by (auto simp: rref_def rank_def split: prod.splits)
  then show ?thesis
    by (simp add: is_linearly_independent_def)
qed

lemma find_pivot_None: "find_pivot rs = None \<Longrightarrow> r \<in> set rs \<Longrightarrow> head r = 0"
  by (auto simp: find_pivot_def find_None_iff)

lemma find_pivot_Some: "find_pivot rs = Some p \<Longrightarrow> p \<in> set rs \<and> head p \<noteq> 0"
  by (auto simp: find_pivot_def find_Some_iff)

lemma set_remove1_insert: "p \<in> set rs \<Longrightarrow> insert p (set (remove1 p rs)) = set rs"
  by (induction rs) auto

section \<open>Lemmas about rank and dimension\<close>

lemma coord_zero: "coord 0 i = 0"
  by (simp add: zero_vec_def)

lemma coord_plus: "coord (u + v) i = coord u i + coord v i"
  by (simp add: plus_vec_def)

lemma coord_minus: "coord (u - v) i = coord u i - coord v i"
  by (simp add: minus_vec_def)

lemma coord_smult: "coord (smult c u) i = c * coord u i"
  by (simp add: smult_def)

lemma coord_row_vec: "coord (row_vec r) i = entry r i"
  by (simp add: row_vec_def)

lemma coord_shift: "coord (shift u) i = coord u (Suc i)"
  by (simp add: shift_def)

lemma coord_swap_coords:
  "coord (swap_coords i j u) k = coord u (if k = i then j else if k = j then i else k)"
  by (simp add: swap_coords_def)

lemmas coord_simps =
  coord_zero coord_plus coord_minus coord_smult coord_row_vec coord_shift coord_swap_coords

lemma vec_eqI: "(\<And>i. coord u i = coord v i) \<Longrightarrow> u = v"
  by (rule vec.expand) (rule ext)

lemma vector_space_smult: "vector_space smult"
  by unfold_locales (auto intro!: vec_eqI simp: coord_simps algebra_simps)

lemma module_smult: "module smult"
  using vector_space_smult by (simp add: module_iff_vector_space)

lemma vector_space_pair_smult: "vector_space_pair smult smult"
  using vector_space_smult by (simp add: vector_space_pair_def)

lemma linear_ratI:
  assumes "\<And>u v. h (u + v) = h u + h v" and "\<And>c u. h (smult c u) = smult c (h u)"
  shows "linear_rat h"
  using assms vector_space_smult by (simp add: Vector_Spaces.linear_iff)

lemma span_rat_eqI:
  assumes "S \<subseteq> span_rat T" and "T \<subseteq> span_rat S"
  shows "span_rat S = span_rat T"
  using assms by (simp add: module.span_eq[OF module_smult])

text \<open>Every set of vectors has a basis inside it that spans the same space.\<close>

lemma basis_in:
  obtains B where "B \<subseteq> S" and "independent_rat B" and "span_rat B = span_rat S"
    and "card B = dim_rat S"
proof -
  obtain B where B: "B \<subseteq> S" "independent_rat B" "S \<subseteq> span_rat B" "card B = dim_rat S"
    by (rule vector_space.basis_exists[OF vector_space_smult])
  have "span_rat B = span_rat S"
    using B(1,3) by (intro span_rat_eqI) (auto intro: module.span_base[OF module_smult])
  with B show ?thesis
    by (intro that)
qed

text \<open>A linear map that is injective on the span of a set keeps its dimension.\<close>

lemma dim_rat_image:
  assumes lin: "linear_rat h" and inj: "inj_on h (span_rat S)"
  shows "dim_rat (h ` S) = dim_rat S"
proof -
  obtain B where B: "B \<subseteq> S" "independent_rat B" "span_rat B = span_rat S" "card B = dim_rat S"
    by (rule basis_in)
  have "independent_rat (h ` B)"
    using vector_space_pair.linear_independent_injective_image
      [OF vector_space_pair_smult lin B(2)] inj B(3)
    by simp
  moreover have "span_rat (h ` B) = span_rat (h ` S)"
    by (simp add: vector_space_pair.linear_span_image[OF vector_space_pair_smult lin] B(3))
  ultimately have "dim_rat (h ` S) = card (h ` B)"
    by (rule vector_space.dim_eq_card[OF vector_space_smult, rotated])
  also have "inj_on h B"
    using inj B(3) module.span_base[OF module_smult] by (metis inj_on_subset subsetI)
  then have "card (h ` B) = card B"
    by (rule card_image)
  finally show ?thesis
    using B(4) by simp
qed

text \<open>A vector outside the span of a finite set adds one to its dimension.\<close>

lemma dim_rat_insert:
  assumes fin: "finite S" and a: "a \<notin> span_rat S"
  shows "dim_rat (insert a S) = Suc (dim_rat S)"
proof -
  obtain B where B: "B \<subseteq> S" "independent_rat B" "span_rat B = span_rat S" "card B = dim_rat S"
    by (rule basis_in)
  have finB: "finite B"
    using B(1) fin by (rule finite_subset)
  have aB: "a \<notin> B"
    using a B(3) module.span_base[OF module_smult] by blast
  have "independent_rat (insert a B)"
    using a B(2,3) by (intro vector_space.independent_insertI[OF vector_space_smult]) simp_all
  moreover have "span_rat (insert a B) = span_rat (insert a S)"
  proof (rule span_rat_eqI)
    show "insert a B \<subseteq> span_rat (insert a S)"
      using B(1) by (auto intro: module.span_base[OF module_smult])
    have "span_rat S \<subseteq> span_rat (insert a B)"
      unfolding B(3)[symmetric] by (rule module.span_mono[OF module_smult]) auto
    then show "insert a S \<subseteq> span_rat (insert a B)"
      by (auto intro: module.span_base[OF module_smult])
  qed
  ultimately have "dim_rat (insert a S) = card (insert a B)"
    by (rule vector_space.dim_eq_card[OF vector_space_smult, rotated])
  then show ?thesis
    using finB aB B(4) by simp
qed

lemma dim_rat_zero:
  assumes "S \<subseteq> {0}"
  shows "dim_rat S = 0"
proof -
  have "span_rat {} = span_rat S"
    using assms by (intro span_rat_eqI) (auto simp: module.span_zero[OF module_smult])
  then have "dim_rat S = card ({} :: vec set)"
    using module.independent_empty[OF module_smult]
    by (rule vector_space.dim_eq_card[OF vector_space_smult])
  then show ?thesis
    by simp
qed

lemma linear_shift: "linear_rat shift"
  by (rule linear_ratI) (auto intro!: vec_eqI simp: coord_simps)

lemma subspace_zero_head: "subspace_rat zero_head"
  by (simp add: module.subspace_def[OF module_smult] zero_head_def coord_simps)

lemma inj_on_shift: "inj_on shift zero_head"
proof (rule inj_onI)
  fix u v :: vec
  assume u: "u \<in> zero_head" and v: "v \<in> zero_head" and eq: "shift u = shift v"
  show "u = v"
  proof (rule vec_eqI)
    fix i
    show "coord u i = coord v i"
    proof (cases i)
      case 0
      then show ?thesis
        using u v by (simp add: zero_head_def)
    next
      case (Suc k)
      have "coord (shift u) k = coord (shift v) k"
        by (simp add: eq)
      then show ?thesis
        by (simp add: Suc coord_shift)
    qed
  qed
qed

lemma span_zero_head: "S \<subseteq> zero_head \<Longrightarrow> span_rat S \<subseteq> zero_head"
  by (rule module.span_minimal[OF module_smult _ subspace_zero_head])

lemma dim_rat_shift:
  assumes "S \<subseteq> zero_head"
  shows "dim_rat (shift ` S) = dim_rat S"
  using linear_shift inj_on_subset[OF inj_on_shift span_zero_head[OF assms]]
  by (rule dim_rat_image)

lemma row_vec_Nil: "row_vec [] = 0"
  by (rule vec_eqI) (simp add: coord_simps entry_def)

lemma row_vec_tl: "row_vec (tl r) = shift (row_vec r)"
  by (rule vec_eqI) (cases r; auto simp: coord_simps entry_def)

lemma coord_row_vec_0: "coord (row_vec r) 0 = head r"
  by (cases r) (simp_all add: coord_simps entry_def head_def)

lemma reduce_row_zero_head: "head p \<noteq> 0 \<Longrightarrow> reduce_row p r \<in> zero_head"
  by (simp add: reduce_row_def zero_head_def coord_minus coord_smult coord_row_vec_0)

lemma row_vec_eliminate:
  assumes "length r = length p"
  shows "row_vec (eliminate p r) = shift (reduce_row p r)"
proof (rule vec_eqI)
  fix i
  show "coord (row_vec (eliminate p r)) i = coord (shift (reduce_row p r)) i"
    using assms
    by (cases p; cases r) (auto simp: coord_simps entry_def eliminate_def reduce_row_def)
qed

text \<open>Subtracting multiples of the pivot row from the other rows keeps the row space.\<close>

lemma span_rat_reduce:
  "span_rat (insert (row_vec p) (reduce_row p ` R))
     = span_rat (insert (row_vec p) (row_vec ` R))"
proof (rule span_rat_eqI)
  have p: "row_vec p \<in> span_rat (insert (row_vec p) (row_vec ` R))"
    by (simp add: module.span_base[OF module_smult])
  show "insert (row_vec p) (reduce_row p ` R) \<subseteq> span_rat (insert (row_vec p) (row_vec ` R))"
  proof (intro insert_subsetI image_subsetI)
    fix r assume "r \<in> R"
    then have "row_vec r \<in> span_rat (insert (row_vec p) (row_vec ` R))"
      by (simp add: module.span_base[OF module_smult])
    then show "reduce_row p r \<in> span_rat (insert (row_vec p) (row_vec ` R))"
      unfolding reduce_row_def
      by (intro module.span_diff[OF module_smult] module.span_scale[OF module_smult] p)
  qed (rule p)
  have q: "row_vec p \<in> span_rat (insert (row_vec p) (reduce_row p ` R))"
    by (simp add: module.span_base[OF module_smult])
  show "insert (row_vec p) (row_vec ` R) \<subseteq> span_rat (insert (row_vec p) (reduce_row p ` R))"
  proof (intro insert_subsetI image_subsetI)
    fix r assume "r \<in> R"
    then have "reduce_row p r \<in> span_rat (insert (row_vec p) (reduce_row p ` R))"
      by (simp add: module.span_base[OF module_smult])
    then have "reduce_row p r + smult (head r / head p) (row_vec p)
                 \<in> span_rat (insert (row_vec p) (reduce_row p ` R))"
      by (intro module.span_add[OF module_smult] module.span_scale[OF module_smult] q)
    then show "row_vec r \<in> span_rat (insert (row_vec p) (reduce_row p ` R))"
      by (simp add: reduce_row_def)
  qed (rule q)
qed

text \<open>Forward elimination counts the dimension of the row space.\<close>

lemma rank_rows_dim:
  "\<forall>r \<in> set rs. length r = n \<Longrightarrow> rank_rows n rs = dim_rat (row_vec ` set rs)"
proof (induction n arbitrary: rs)
  case 0
  then have "row_vec ` set rs \<subseteq> {0}"
    by (auto simp: row_vec_Nil)
  then show ?case
    by (simp add: dim_rat_zero)
next
  case (Suc n)
  show ?case
  proof (cases "find_pivot rs")
    case None
    have len: "\<forall>r \<in> set (map tl rs). length r = n"
      using Suc.prems by auto
    have sub: "row_vec ` set rs \<subseteq> zero_head"
      using find_pivot_None[OF None] by (auto simp: zero_head_def coord_row_vec_0)
    have "rank_rows (Suc n) rs = dim_rat (row_vec ` set (map tl rs))"
      using None Suc.IH[OF len] by simp
    also have "row_vec ` set (map tl rs) = shift ` row_vec ` set rs"
      by (auto simp: row_vec_tl image_iff)
    also have "dim_rat (shift ` row_vec ` set rs) = dim_rat (row_vec ` set rs)"
      by (rule dim_rat_shift[OF sub])
    finally show ?thesis .
  next
    case (Some p)
    have p: "p \<in> set rs" "head p \<noteq> 0"
      using find_pivot_Some[OF Some] by simp_all
    let ?R = "set (remove1 p rs)"
    let ?S = "reduce_row p ` ?R"
    have lenp: "length p = Suc n"
      using p(1) Suc.prems by simp
    have lenR: "\<And>r. r \<in> ?R \<Longrightarrow> length r = length p"
      using Suc.prems lenp by (metis notin_set_remove1)
    have len: "\<forall>r \<in> set (map (eliminate p) (remove1 p rs)). length r = n"
      using lenR lenp by (auto simp: eliminate_def)
    have sub: "?S \<subseteq> zero_head"
      using reduce_row_zero_head[OF p(2)] by auto
    have notin: "row_vec p \<notin> span_rat ?S"
      using span_zero_head[OF sub] p(2) by (auto simp: zero_head_def coord_row_vec_0)
    have "rank_rows (Suc n) rs
            = Suc (dim_rat (row_vec ` set (map (eliminate p) (remove1 p rs))))"
      using Some Suc.IH[OF len] by simp
    also have "row_vec ` set (map (eliminate p) (remove1 p rs)) = shift ` ?S"
      using lenR by (auto simp: row_vec_eliminate image_iff)
    also have "dim_rat (shift ` ?S) = dim_rat ?S"
      by (rule dim_rat_shift[OF sub])
    also have "Suc (dim_rat ?S) = dim_rat (insert (row_vec p) ?S)"
      using notin by (simp add: dim_rat_insert)
    also have "\<dots> = dim_rat (insert (row_vec p) (row_vec ` ?R))"
      by (rule vector_space.span_eq_dim[OF vector_space_smult span_rat_reduce])
    also have "insert (row_vec p) (row_vec ` ?R) = row_vec ` set rs"
      using set_remove1_insert[OF p(1)] by (metis image_insert)
    finally show ?thesis .
  qed
qed

lemma rank_dim:
  assumes "wf_matrix m"
  shows "rank m = dim_rat (row_vec ` set (entries m))"
  unfolding rank_def using assms
  by (intro rank_rows_dim) (simp add: wf_matrix_def list_all_iff)

section \<open>Exchanging two columns, with exact entries\<close>

lemma linear_swap_coords: "linear_rat (swap_coords i j)"
  by (rule linear_ratI) (auto intro!: vec_eqI simp: coord_simps)

lemma swap_coords_twice: "swap_coords i j (swap_coords i j u) = u"
  by (rule vec_eqI) (simp add: coord_simps)

lemma inj_swap_coords: "inj_on (swap_coords i j) A"
  by (rule inj_on_inverseI[where g = "swap_coords i j"]) (rule swap_coords_twice)

lemma row_vec_swap:
  assumes "i < length r" and "j < length r"
  shows "row_vec (r[i := r ! j, j := r ! i]) = swap_coords i j (row_vec r)"
  using assms by (intro vec_eqI) (auto simp: coord_simps entry_def nth_list_update)

lemma rows_swap_columns: "rows (swap_columns i j m) = rows m"
  by (simp add: swap_columns_def)

lemma cols_swap_columns: "cols (swap_columns i j m) = cols m"
  by (simp add: swap_columns_def)

lemma wf_swap_columns: "wf_matrix m \<Longrightarrow> wf_matrix (swap_columns i j m)"
  by (simp add: wf_matrix_def swap_columns_def list_all_iff)

lemma rank_swap_columns:
  assumes wf: "wf_matrix m" and i: "i < cols m" and j: "j < cols m"
  shows "rank (swap_columns i j m) = rank m"
proof -
  have len: "\<And>r. r \<in> set (entries m) \<Longrightarrow> length r = cols m"
    using wf by (simp add: wf_matrix_def list_all_iff)
  have "row_vec ` set (entries (swap_columns i j m))
          = swap_coords i j ` row_vec ` set (entries m)"
    using len i j by (auto simp: swap_columns_def row_vec_swap image_iff)
  then have "rank (swap_columns i j m)
               = dim_rat (swap_coords i j ` row_vec ` set (entries m))"
    using rank_dim[OF wf_swap_columns[OF wf]] by simp
  also have "\<dots> = dim_rat (row_vec ` set (entries m))"
    using linear_swap_coords inj_swap_coords by (rule dim_rat_image)
  finally show ?thesis
    by (simp add: rank_dim[OF wf])
qed

lemma map2_append_swap:
  assumes "\<forall>r \<in> set ts. i < length r \<and> j < length r"
  shows "map2 (@) (map (\<lambda>r. r[i := r ! j, j := r ! i]) ts) vs
           = map (\<lambda>r. r[i := r ! j, j := r ! i]) (map2 (@) ts vs)"
  using assms
proof (induction ts arbitrary: vs)
  case Nil
  then show ?case
    by simp
next
  case (Cons a ts)
  then show ?case
    by (cases vs) (simp_all add: list_update_append1 nth_append)
qed

lemma row_join_swap_columns:
  assumes "wf_matrix t" and "i < cols t" and "j < cols t"
  shows "row_join (swap_columns i j t) v = swap_columns i j (row_join t v)"
  using assms
  by (simp add: row_join_def swap_columns_def wf_matrix_def list_all_iff map2_append_swap)

lemma wf_row_join:
  assumes "wf_matrix t" and "wf_matrix v" and "rows t = rows v"
  shows "wf_matrix (row_join t v)"
  using assms
  by (auto simp: row_join_def wf_matrix_def list_all_iff elim!: in_set_zipE)

text \<open>
  For well-formed matrices \<open>T\<close> and \<open>V\<close> with exact entries, the same number of
  rows and column indices \<open>i\<close> and \<open>j\<close> of \<open>T\<close>, the verifier returns the same
  result for \<open>T\<close> and for \<open>T\<close> with columns \<open>i\<close> and \<open>j\<close> exchanged. The
  statement is about exact arithmetic only: on floating-point entries the provider's
  elimination rounds, and its pivots can depend on the order of the columns.
\<close>

lemma swap_columns_exact:
  assumes "wf_matrix t" and "wf_matrix v" and "rows t = rows v"
    and "i < cols t" and "j < cols t"
  shows "snd (basis_of (Matrix (swap_columns i j t)) (Matrix v) verbosity)
           = snd (basis_of (Matrix t) (Matrix v) verbosity)"
proof -
  have "rank (swap_columns i j t) = rank t"
    using assms by (simp add: rank_swap_columns)
  moreover have "rank (row_join (swap_columns i j t) v) = rank (row_join t v)"
  proof -
    have wf: "wf_matrix (row_join t v)"
      using assms by (simp add: wf_row_join)
    have i: "i < cols (row_join t v)" and j: "j < cols (row_join t v)"
      using assms by (simp_all add: row_join_def)
    have "row_join (swap_columns i j t) v = swap_columns i j (row_join t v)"
      using assms by (simp add: row_join_swap_columns)
    then show ?thesis
      using rank_swap_columns[OF wf i j] by simp
  qed
  ultimately show ?thesis
    by (simp add: basis_of_def snd_basis_of_with_Matrix is_linearly_independent_iff_rank
        rows_swap_columns cols_swap_columns)
qed

text \<open>The basis \<open>(1, 0)\<close>, \<open>(2, 1)\<close> of the plane, in either order.\<close>

lemma swap_columns_exact_example:
  "wf_matrix \<lparr>rows = 2, cols = 2, entries = [[1, 2], [0, 1]]\<rparr> \<and>
   wf_matrix \<lparr>rows = 2, cols = 2, entries = [[1, 0], [0, 1]]\<rparr> \<and>
   rows \<lparr>rows = 2, cols = 2, entries = [[1, 2], [0, 1]]\<rparr>
     = rows \<lparr>rows = 2, cols = 2, entries = [[1, 0], [0, 1]]\<rparr> \<and>
   0 < cols \<lparr>rows = 2, cols = 2, entries = [[1, 2], [0, 1]]\<rparr> \<and>
   1 < cols \<lparr>rows = 2, cols = 2, entries = [[1, 2], [0, 1]]\<rparr> \<and>
   swap_columns 0 1 \<lparr>rows = 2, cols = 2, entries = [[1, 2], [0, 1]]\<rparr>
     = \<lparr>rows = 2, cols = 2, entries = [[2, 1], [1, 0]]\<rparr> \<and>
   snd (basis_of (Matrix \<lparr>rows = 2, cols = 2, entries = [[2, 1], [1, 0]]\<rparr>)
                 (Matrix \<lparr>rows = 2, cols = 2, entries = [[1, 0], [0, 1]]\<rparr>) 1)
     = snd (basis_of (Matrix \<lparr>rows = 2, cols = 2, entries = [[1, 2], [0, 1]]\<rparr>)
                     (Matrix \<lparr>rows = 2, cols = 2, entries = [[1, 0], [0, 1]]\<rparr>) 1)"
proof -
  let ?t = "\<lparr>rows = 2, cols = 2, entries = [[1, 2], [0, 1 :: rat]]\<rparr>"
  let ?v = "\<lparr>rows = 2, cols = 2, entries = [[1, 0], [0, 1 :: rat]]\<rparr>"
  have h: "wf_matrix ?t" "wf_matrix ?v" "rows ?t = rows ?v" "0 < cols ?t" "1 < cols ?t"
    by (simp_all add: wf_matrix_def)
  have s: "swap_columns 0 1 ?t = \<lparr>rows = 2, cols = 2, entries = [[2, 1], [1, 0]]\<rparr>"
    by (simp add: swap_columns_def)
  show ?thesis
    using h s swap_columns_exact[OF h, of 1] by simp
qed

section \<open>The claims\<close>

text \<open>
  C1. For matrices \<open>T\<close> and \<open>V\<close> with the same number of rows, the verifier returns
  true exactly when \<open>cols T = rank V\<close>, \<open>rank T = cols T\<close> and
  \<open>rank [T | V] = rank V\<close>, at every verbosity.
\<close>

theorem basis_of_three_checks:
  "rows t = rows v \<Longrightarrow>
   snd (basis_of (Matrix t) (Matrix v) verbosity) =
     Inr (cols t = rank v \<and> rank t = cols t \<and> rank (row_join t v) = rank v)"
  by (simp add: basis_of_def snd_basis_of_with_Matrix is_linearly_independent_iff_rank)

text \<open>The columns \<open>(1, 0)\<close> and \<open>(1, 1)\<close> are a basis of the plane.\<close>

theorem basis_of_three_checks_witness:
  "rows \<lparr>rows = 2, cols = 2, entries = [[1, 1], [0, 1]]\<rparr>
     = rows \<lparr>rows = 2, cols = 2, entries = [[1, 0], [0, 1]]\<rparr> \<and>
   snd (basis_of (Matrix \<lparr>rows = 2, cols = 2, entries = [[1, 1], [0, 1]]\<rparr>)
                 (Matrix \<lparr>rows = 2, cols = 2, entries = [[1, 0], [0, 1]]\<rparr>) 1) = Inr True"
proof -
  let ?t = "\<lparr>rows = 2, cols = 2, entries = [[1, 1], [0, 1 :: rat]]\<rparr>"
  let ?v = "\<lparr>rows = 2, cols = 2, entries = [[1, 0], [0, 1 :: rat]]\<rparr>"
  have h: "rows ?t = rows ?v"
    by simp
  have e: "(cols ?t = rank ?v \<and> rank ?t = cols ?t \<and> rank (row_join ?t ?v) = rank ?v) = True"
    by code_simp
  show ?thesis
    using basis_of_three_checks[OF h, of 1] e by simp
qed

text \<open>
  C2. For every matrix \<open>T\<close> and every verbosity, the verifier called without \<open>V\<close>
  returns what it returns with \<open>V\<close> the identity matrix of size \<open>rows T\<close>.
\<close>

theorem basis_of_default_V:
  "snd (basis_of (Matrix t) NoneVal verbosity) =
     snd (basis_of (Matrix t) (Matrix (eye (rows t))) verbosity)"
  by (simp add: basis_of_def snd_basis_of_with_NoneVal)

text \<open>
  C3. When \<open>T\<close> is not a matrix, and when \<open>T\<close> is one and a supplied \<open>V\<close> is not,
  the verifier raises the type error with nothing printed and no call made to the matrix
  provider. When \<open>T\<close> is a matrix and \<open>V\<close> is a matrix or omitted, it raises no type
  error.
\<close>

theorem basis_of_type_error:
  "(\<not> is_Matrix T \<longrightarrow>
      basis_of T V verbosity = ([], Inl (TypeError ''T must be a Matrix object''))) \<and>
   (is_Matrix T \<and> V \<noteq> NoneVal \<and> \<not> is_Matrix V \<longrightarrow>
      basis_of T V verbosity = ([], Inl (TypeError ''V must be a Matrix object''))) \<and>
   (is_Matrix T \<and> (V = NoneVal \<or> is_Matrix V) \<longrightarrow>
      (\<forall>msg. snd (basis_of T V verbosity) \<noteq> Inl (TypeError msg)))"
proof (intro conjI impI)
  assume "\<not> is_Matrix T"
  then show "basis_of T V verbosity = ([], Inl (TypeError ''T must be a Matrix object''))"
    by (simp add: basis_of_def basis_of_with_not_Matrix)
next
  assume "is_Matrix T \<and> V \<noteq> NoneVal \<and> \<not> is_Matrix V"
  then obtain t where "T = Matrix t" and "V = OtherObject"
    by (cases T; cases V) simp_all
  then show "basis_of T V verbosity = ([], Inl (TypeError ''V must be a Matrix object''))"
    by (simp add: basis_of_def basis_of_with_OtherObject)
next
  assume a: "is_Matrix T \<and> (V = NoneVal \<or> is_Matrix V)"
  then obtain t where T: "T = Matrix t"
    by (cases T) simp_all
  from a consider "V = NoneVal" | v where "V = Matrix v"
    by (cases V) simp_all
  then show "\<forall>msg. snd (basis_of T V verbosity) \<noteq> Inl (TypeError msg)"
  proof cases
    case 1
    then show ?thesis
      by (simp add: T basis_of_def snd_basis_of_with_NoneVal snd_basis_of_with_Matrix rows_eye)
  next
    case 2
    then show ?thesis
      by (simp add: T basis_of_def snd_basis_of_with_Matrix)
  qed
qed

text \<open>A string for \<open>T\<close>; a matrix for \<open>T\<close> with a list for \<open>V\<close>; the 1 by 1 unit
  matrix for both.\<close>

theorem basis_of_type_error_witness:
  "\<not> is_Matrix OtherObject \<and>
   basis_of OtherObject NoneVal 2 = ([], Inl (TypeError ''T must be a Matrix object'')) \<and>
   is_Matrix (Matrix \<lparr>rows = 1, cols = 1, entries = [[1]]\<rparr>) \<and>
   basis_of (Matrix \<lparr>rows = 1, cols = 1, entries = [[1]]\<rparr>) OtherObject 2
     = ([], Inl (TypeError ''V must be a Matrix object'')) \<and>
   (\<forall>msg. snd (basis_of (Matrix \<lparr>rows = 1, cols = 1, entries = [[1]]\<rparr>)
                         (Matrix \<lparr>rows = 1, cols = 1, entries = [[1]]\<rparr>) 2)
            \<noteq> Inl (TypeError msg))"
  using basis_of_type_error[of OtherObject NoneVal 2]
    basis_of_type_error[of "Matrix \<lparr>rows = 1, cols = 1, entries = [[1]]\<rparr>" OtherObject 2]
    basis_of_type_error[of "Matrix \<lparr>rows = 1, cols = 1, entries = [[1]]\<rparr>"
      "Matrix \<lparr>rows = 1, cols = 1, entries = [[1]]\<rparr>" 2]
  by simp

text \<open>
  C4. For matrices \<open>T\<close> and \<open>V\<close> with different numbers of rows the verifier raises the
  dimension error, with nothing printed and no call made to the matrix provider; with the
  same number of rows it raises nothing and returns a boolean.
\<close>

theorem basis_of_dimension_error:
  "(rows t \<noteq> rows v \<longrightarrow>
      basis_of (Matrix t) (Matrix v) verbosity =
        ([], Inl (ValueError ''T and V must have the same number of rows''))) \<and>
   (rows t = rows v \<longrightarrow> (\<exists>b. snd (basis_of (Matrix t) (Matrix v) verbosity) = Inr b))"
  by (simp add: basis_of_def basis_of_with_mismatch snd_basis_of_with_Matrix)

text \<open>A 1 by 1 matrix against a 2 by 1 matrix, and against itself.\<close>

theorem basis_of_dimension_error_witness:
  "rows \<lparr>rows = 1, cols = 1, entries = [[1]]\<rparr> \<noteq> rows \<lparr>rows = 2, cols = 1, entries = [[1], [0]]\<rparr> \<and>
   basis_of (Matrix \<lparr>rows = 1, cols = 1, entries = [[1]]\<rparr>)
            (Matrix \<lparr>rows = 2, cols = 1, entries = [[1], [0]]\<rparr>) 1
     = ([], Inl (ValueError ''T and V must have the same number of rows'')) \<and>
   (\<exists>b. snd (basis_of (Matrix \<lparr>rows = 1, cols = 1, entries = [[1]]\<rparr>)
                       (Matrix \<lparr>rows = 1, cols = 1, entries = [[1]]\<rparr>) 1) = Inr b)"
  using basis_of_dimension_error[of "\<lparr>rows = 1, cols = 1, entries = [[1]]\<rparr>"
      "\<lparr>rows = 2, cols = 1, entries = [[1], [0]]\<rparr>" 1]
    basis_of_dimension_error[of "\<lparr>rows = 1, cols = 1, entries = [[1]]\<rparr>"
      "\<lparr>rows = 1, cols = 1, entries = [[1]]\<rparr>" 1]
  by simp

text \<open>
  C5. The result of the verifier, the boolean or the exception, is the same at any two
  verbosity levels: the verbosity reaches the printed lines only.
\<close>

theorem basis_of_verbosity_independent:
  "snd (basis_of T V v1) = snd (basis_of T V v2)"
proof (cases "is_Matrix T")
  case False
  then show ?thesis
    by (simp add: basis_of_def basis_of_with_not_Matrix)
next
  case True
  then obtain t where T: "T = Matrix t"
    by (cases T) simp_all
  show ?thesis
    by (cases V)
      (simp_all add: T basis_of_def snd_basis_of_with_Matrix snd_basis_of_with_NoneVal
        basis_of_with_OtherObject)
qed

text \<open>
  C6. For matrices \<open>T\<close> and \<open>V\<close> with the same number of rows and \<open>cols T\<close> different
  from \<open>rank V\<close>, the verifier returns false, and the only call it makes to the matrix
  provider is \<open>rank\<close> of \<open>V\<close>: no independence test, no concatenation.
\<close>

theorem basis_of_wrong_count:
  "rows t = rows v \<Longrightarrow> cols t \<noteq> rank v \<Longrightarrow>
   snd (basis_of (Matrix t) (Matrix v) verbosity) = Inr False \<and>
   filter is_call (fst (basis_of (Matrix t) (Matrix v) verbosity)) = [Call_rank v]"
  by (simp add: basis_of_def snd_basis_of_with_Matrix calls_basis_of_with_wrong_count)

text \<open>One vector of the plane against the plane: scenario 3 of the specification, with
  \<open>V\<close> supplied.\<close>

theorem basis_of_wrong_count_witness:
  "rows \<lparr>rows = 2, cols = 1, entries = [[1], [0]]\<rparr>
     = rows \<lparr>rows = 2, cols = 2, entries = [[1, 0], [0, 1]]\<rparr> \<and>
   cols \<lparr>rows = 2, cols = 1, entries = [[1], [0]]\<rparr>
     \<noteq> rank \<lparr>rows = 2, cols = 2, entries = [[1, 0], [0, 1]]\<rparr> \<and>
   snd (basis_of (Matrix \<lparr>rows = 2, cols = 1, entries = [[1], [0]]\<rparr>)
                 (Matrix \<lparr>rows = 2, cols = 2, entries = [[1, 0], [0, 1]]\<rparr>) 2) = Inr False \<and>
   filter is_call
     (fst (basis_of (Matrix \<lparr>rows = 2, cols = 1, entries = [[1], [0]]\<rparr>)
                    (Matrix \<lparr>rows = 2, cols = 2, entries = [[1, 0], [0, 1]]\<rparr>) 2))
     = [Call_rank \<lparr>rows = 2, cols = 2, entries = [[1, 0], [0, 1]]\<rparr>]"
proof -
  let ?t = "\<lparr>rows = 2, cols = 1, entries = [[1], [0 :: rat]]\<rparr>"
  let ?v = "\<lparr>rows = 2, cols = 2, entries = [[1, 0], [0, 1 :: rat]]\<rparr>"
  have h1: "rows ?t = rows ?v"
    by simp
  have h2: "cols ?t \<noteq> rank ?v"
    by code_simp
  show ?thesis
    using h1 h2 basis_of_wrong_count[OF h1 h2, of 2] by simp
qed

text \<open>
  C7. The verifier returns the same result when its independence test, the provider's
  \<open>is_linearly_independent\<close> with the column-space flag, is replaced by the comparison
  of \<open>rank T\<close> with \<open>cols T\<close>.
\<close>

theorem basis_of_direct_equivalent:
  "snd (basis_of T V verbosity) = snd (basis_of_direct T V verbosity)"
  by (simp add: basis_of_def basis_of_direct_def is_linearly_independent_iff_rank)

text \<open>
  C9. With \<open>T\<close> the 2 by 2 identity matrix and \<open>V\<close> omitted, the verifier returns true,
  at every verbosity.
\<close>

theorem basis_of_identity_2:
  "snd (basis_of (Matrix \<lparr>rows = 2, cols = 2, entries = [[1, 0], [0, 1]]\<rparr>) NoneVal verbosity)
     = Inr True"
proof -
  let ?t = "\<lparr>rows = 2, cols = 2, entries = [[1, 0], [0, 1 :: rat]]\<rparr>"
  have "(cols ?t = rank (eye (rows ?t)) \<and> is_linearly_independent ?t True \<and>
         rank (row_join ?t (eye (rows ?t))) = rank (eye (rows ?t))) = True"
    by code_simp
  then show ?thesis
    by (simp add: basis_of_def snd_basis_of_with_NoneVal snd_basis_of_with_Matrix rows_eye)
qed

text \<open>
  C10. For every matrix \<open>T\<close>, the verifier called without \<open>V\<close> raises nothing: it
  returns a boolean.
\<close>

theorem basis_of_default_V_total:
  "\<exists>b. snd (basis_of (Matrix t) NoneVal verbosity) = Inr b"
  by (simp add: basis_of_def snd_basis_of_with_NoneVal snd_basis_of_with_Matrix rows_eye)

end
